theory Spec2Isabelle
  imports Main
begin

section \<open>JavaScript values\<close>

text \<open>
  The module \<^verbatim>\<open>lib/amqp.js\<close> receives a configuration object, messages to publish and
  deliveries to consume, all of them plain JavaScript data. A value is a primitive, an error
  object, an array or an object written in line, or a reference \<open>JRef a\<close> to an object
  kept in a store, which is how a value that contains itself is written. Numbers are integers
  here and strings are byte strings (their UTF-8 encoding), so that \<^verbatim>\<open>new Buffer(s)\<close> and
  \<^verbatim>\<open>content.toString()\<close> leave the bytes as they are.
\<close>

datatype errkind = Error | TypeError | SyntaxError | RangeError

datatype jsval =
    JUndefined
  | JNull
  | JBool bool
  | JNum int
  | JStr string
  | JError errkind string
  | JArr "jsval list"
  | JObj "(string \<times> jsval) list"
  | JRef nat

type_synonym store = "(nat \<times> jsval) list"

text \<open>The test \<^verbatim>\<open>if (v)\<close>: false for undefined, null, false, 0 and the empty string.\<close>

fun truthy :: "jsval \<Rightarrow> bool" where
  "truthy JUndefined = False"
| "truthy JNull = False"
| "truthy (JBool b) = b"
| "truthy (JNum n) = (n \<noteq> 0)"
| "truthy (JStr s) = (s \<noteq> [])"
| "truthy (JError k m) = True"
| "truthy (JArr xs) = True"
| "truthy (JObj kvs) = True"
| "truthy (JRef a) = True"

fun typeof :: "jsval \<Rightarrow> string" where
  "typeof JUndefined = ''undefined''"
| "typeof JNull = ''object''"
| "typeof (JBool b) = ''boolean''"
| "typeof (JNum n) = ''number''"
| "typeof (JStr s) = ''string''"
| "typeof (JError k m) = ''object''"
| "typeof (JArr xs) = ''object''"
| "typeof (JObj kvs) = ''object''"
| "typeof (JRef a) = ''object''"

text \<open>\<^verbatim>\<open>v instanceof Array\<close>, for the values written in line.\<close>

fun is_Array :: "jsval \<Rightarrow> bool" where
  "is_Array (JArr xs) = True"
| "is_Array v = False"

text \<open>
  The property read \<^verbatim>\<open>v.k\<close>. Reading a property of undefined or null throws a TypeError
  (\<open>Inl\<close> carries the thrown value, here with the name of the property as its message);
  a missing property reads as undefined. This module reads properties of the configuration
  only, which is written in line: the objects of the store are visited by the serializer
  alone, and a reference read here has no property.
\<close>

fun get_prop :: "jsval \<Rightarrow> string \<Rightarrow> jsval + jsval" where
  "get_prop JUndefined k = Inl (JError TypeError k)"
| "get_prop JNull k = Inl (JError TypeError k)"
| "get_prop (JObj kvs) k = Inr (case map_of kvs k of None \<Rightarrow> JUndefined | Some v \<Rightarrow> v)"
| "get_prop v k = Inr JUndefined"

text \<open>The assignment \<^verbatim>\<open>o.k = v\<close> on an object: the property is replaced or added last.\<close>

fun set_field :: "string \<Rightarrow> jsval \<Rightarrow> (string \<times> jsval) list \<Rightarrow> (string \<times> jsval) list" where
  "set_field k v [] = [(k, v)]"
| "set_field k v ((k', v') # kvs) =
     (if k' = k then (k, v) # kvs else (k', v') # set_field k v kvs)"

fun set_prop :: "jsval \<Rightarrow> string \<Rightarrow> jsval \<Rightarrow> jsval" where
  "set_prop (JObj kvs) k v = JObj (set_field k v kvs)"
| "set_prop w k v = w"

section \<open>Serialization\<close>

definition digit :: "nat \<Rightarrow> char" where
  "digit n = ''0123456789abcdef'' ! n"

fun show_nat :: "nat \<Rightarrow> string" where
  "show_nat n = (if n < 10 then [digit n] else show_nat (n div 10) @ [digit (n mod 10)])"

declare show_nat.simps [simp del]

definition show_int :: "int \<Rightarrow> string" where
  "show_int i = (if i < 0 then CHR ''-'' # show_nat (nat (- i)) else show_nat (nat i))"

text \<open>A JSON string literal: the double quote, the backslash and the control characters are escaped.\<close>

definition dquote :: char where
  "dquote = CHR 0x22"

definition backslash :: char where
  "backslash = CHR 0x5C"

definition json_escape :: "char \<Rightarrow> string" where
  "json_escape c =
     (if c = dquote then [backslash, dquote]
      else if c = backslash then [backslash, backslash]
      else if c = CHR 0x08 then [backslash, CHR ''b'']
      else if c = CHR 0x09 then [backslash, CHR ''t'']
      else if c = CHR 0x0A then [backslash, CHR ''n'']
      else if c = CHR 0x0C then [backslash, CHR ''f'']
      else if c = CHR 0x0D then [backslash, CHR ''r'']
      else if (of_char c :: nat) < 32
        then backslash # ''u00'' @ [digit (of_char c div 16), digit (of_char c mod 16)]
      else [c])"

definition json_quote :: "string \<Rightarrow> string" where
  "json_quote s = dquote # concat (map json_escape s) @ [dquote]"

fun commas :: "string list \<Rightarrow> string" where
  "commas [] = []"
| "commas [s] = s"
| "commas (s # t # ss) = s @ CHR '','' # commas (t # ss)"

text \<open>The string that stands for a reference to an enclosing object.\<close>

definition circular :: string where
  "circular = ''[Circular]''"

text \<open>
  Modelled from the spec: the serializer \<^verbatim>\<open>json-stringify-safe\<close> is a dependency whose code is
  not under \<^verbatim>\<open>src/\<close>. The spec describes it as a JSON serializer tolerant of circular
  references: cycles are broken rather than raised as errors, producing a best-effort string.
  \<open>serialize h st v\<close> is the JSON text of \<open>v\<close> in the store \<open>h\<close>, where \<open>st\<close> holds the
  addresses of the objects being serialized around \<open>v\<close>; a reference to one of them is a
  cycle and is replaced by the string \<^verbatim>\<open>[Circular]\<close>. As in \<^verbatim>\<open>JSON.stringify\<close>, \<open>None\<close>
  stands for the result undefined: such a property is left out of an object and reads null
  in an array. An error object has no enumerable property.
\<close>

function serialize :: "store \<Rightarrow> nat list \<Rightarrow> jsval \<Rightarrow> string option" where
  "serialize h st JUndefined = None"
| "serialize h st JNull = Some ''null''"
| "serialize h st (JBool b) = Some (if b then ''true'' else ''false'')"
| "serialize h st (JNum n) = Some (show_int n)"
| "serialize h st (JStr s) = Some (json_quote s)"
| "serialize h st (JError k m) = Some ''{}''"
| "serialize h st (JArr xs) =
     Some (''['' @ commas (map (\<lambda>x. case serialize h st x of None \<Rightarrow> ''null'' | Some s \<Rightarrow> s) xs)
           @ '']'')"
| "serialize h st (JObj kvs) =
     Some (''{'' @ commas (concat (map (\<lambda>(k, x). case serialize h st x of None \<Rightarrow> []
                                                | Some s \<Rightarrow> [json_quote k @ '':'' @ s]) kvs))
           @ ''}'')"
| "serialize h st (JRef a) =
     (if a \<in> set st then Some (json_quote circular)
      else case map_of h a of None \<Rightarrow> None | Some v \<Rightarrow> serialize h (a # st) v)"
  by pat_completeness auto
termination
proof (relation "measures [\<lambda>(h, st, v). card (fst ` set h - set st), \<lambda>(h, st, v). size v]")
  fix h :: store and st :: "nat list" and xs :: "jsval list" and x
  assume "x \<in> set xs"
  then have "size x \<le> size_list size xs"
    by (rule size_list_estimation') simp
  then show "((h, st, x), (h, st, JArr xs))
      \<in> measures [\<lambda>(h, st, v). card (fst ` set h - set st), \<lambda>(h, st, v). size v]"
    by simp
next
  fix h :: store and st :: "nat list" and kvs :: "(string \<times> jsval) list" and kx k and x :: jsval
  assume "kx \<in> set kvs" and "(k, x) = kx"
  then have "size x \<le> size_list (size_prod (\<lambda>_. 0) size) kvs"
    using size_list_estimation' [of kx kvs "size x" "size_prod (\<lambda>_. 0) size"] by auto
  then show "((h, st, x), (h, st, JObj kvs))
      \<in> measures [\<lambda>(h, st, v). card (fst ` set h - set st), \<lambda>(h, st, v). size v]"
    by simp
next
  fix h :: store and st :: "nat list" and a v
  assume "a \<notin> set st" and "map_of h a = Some v"
  then have "a \<in> fst ` set h - set st"
    by (force dest: map_of_SomeD)
  then have "fst ` set h - set (a # st) \<subset> fst ` set h - set st"
    by auto
  then have "card (fst ` set h - set (a # st)) < card (fst ` set h - set st)"
    by (intro psubset_card_mono) simp_all
  then show "((h, a # st, v), (h, st, JRef a))
      \<in> measures [\<lambda>(h, st, v). card (fst ` set h - set st), \<lambda>(h, st, v). size v]"
    by simp
qed simp

text \<open>\<^verbatim>\<open>stringifysafe(message)\<close>: a string, or undefined where \<^verbatim>\<open>JSON.stringify\<close> gives undefined.\<close>

definition stringifysafe :: "store \<Rightarrow> jsval \<Rightarrow> jsval" where
  "stringifysafe h v = (case serialize h [] v of None \<Rightarrow> JUndefined | Some s \<Rightarrow> JStr s)"

text \<open>
  What eliding the cycles means: \<open>elide h st v\<close> is the value \<open>v\<close> with every reference
  followed into the store, except that a reference to an object around it is replaced by the
  string \<^verbatim>\<open>[Circular]\<close>. No reference is left in it.
\<close>

function elide :: "store \<Rightarrow> nat list \<Rightarrow> jsval \<Rightarrow> jsval" where
  "elide h st JUndefined = JUndefined"
| "elide h st JNull = JNull"
| "elide h st (JBool b) = JBool b"
| "elide h st (JNum n) = JNum n"
| "elide h st (JStr s) = JStr s"
| "elide h st (JError k m) = JError k m"
| "elide h st (JArr xs) = JArr (map (elide h st) xs)"
| "elide h st (JObj kvs) = JObj (map (\<lambda>(k, x). (k, elide h st x)) kvs)"
| "elide h st (JRef a) =
     (if a \<in> set st then JStr circular
      else case map_of h a of None \<Rightarrow> JUndefined | Some v \<Rightarrow> elide h (a # st) v)"
  by pat_completeness auto
termination
proof (relation "measures [\<lambda>(h, st, v). card (fst ` set h - set st), \<lambda>(h, st, v). size v]")
  fix h :: store and st :: "nat list" and xs :: "jsval list" and x
  assume "x \<in> set xs"
  then have "size x \<le> size_list size xs"
    by (rule size_list_estimation') simp
  then show "((h, st, x), (h, st, JArr xs))
      \<in> measures [\<lambda>(h, st, v). card (fst ` set h - set st), \<lambda>(h, st, v). size v]"
    by simp
next
  fix h :: store and st :: "nat list" and kvs :: "(string \<times> jsval) list" and kx k and x :: jsval
  assume "kx \<in> set kvs" and "(k, x) = kx"
  then have "size x \<le> size_list (size_prod (\<lambda>_. 0) size) kvs"
    using size_list_estimation' [of kx kvs "size x" "size_prod (\<lambda>_. 0) size"] by auto
  then show "((h, st, x), (h, st, JObj kvs))
      \<in> measures [\<lambda>(h, st, v). card (fst ` set h - set st), \<lambda>(h, st, v). size v]"
    by simp
next
  fix h :: store and st :: "nat list" and a v
  assume "a \<notin> set st" and "map_of h a = Some v"
  then have "a \<in> fst ` set h - set st"
    by (force dest: map_of_SomeD)
  then have "fst ` set h - set (a # st) \<subset> fst ` set h - set st"
    by auto
  then have "card (fst ` set h - set (a # st)) < card (fst ` set h - set st)"
    by (intro psubset_card_mono) simp_all
  then show "((h, a # st, v), (h, st, JRef a))
      \<in> measures [\<lambda>(h, st, v). card (fst ` set h - set st), \<lambda>(h, st, v). size v]"
    by simp
qed simp

fun ref_free :: "jsval \<Rightarrow> bool" where
  "ref_free (JRef a) = False"
| "ref_free (JArr xs) = list_all ref_free xs"
| "ref_free (JObj kvs) = list_all (\<lambda>(k, x). ref_free x) kvs"
| "ref_free v = True"

text \<open>
  A message that is a reference refers to an object or an array of the store.
\<close>

fun object_at :: "store \<Rightarrow> jsval \<Rightarrow> bool" where
  "object_at h (JRef a) =
     (case map_of h a of Some (JObj kvs) \<Rightarrow> True | Some (JArr xs) \<Rightarrow> True | _ \<Rightarrow> False)"
| "object_at h v = True"

text \<open>
  \<^verbatim>\<open>new Buffer(message)\<close>: the bytes of a string; a number asks for a buffer of that many
  bytes (written as zero bytes here) and a negative size is a RangeError; undefined, null,
  a boolean or an error object is a TypeError. Arrays and objects never reach it: both
  publish functions serialize them first.
\<close>

fun Buffer :: "jsval \<Rightarrow> jsval + string" where
  "Buffer (JStr s) = Inr s"
| "Buffer (JNum n) = (if n < 0 then Inl (JError RangeError ''size'') else Inr (replicate (nat n) (CHR 0x00)))"
| "Buffer v = Inl (JError TypeError ''Buffer'')"

section \<open>The gateway\<close>

text \<open>
  Everything the module does to the outside is recorded as a list of events, in the order in
  which it happens: the calls made on the transport (\<^verbatim>\<open>amqplib\<close>), the two topology tasks
  of \<^verbatim>\<open>./queue-setup\<close>, and the entry into the user's handler. A function of the module
  returns the events it caused together with its result, \<open>Inl\<close> for a thrown value.
  The calls to \<^verbatim>\<open>debug\<close> and \<^verbatim>\<open>console.log\<close> only write a log and are left out,
  and the calls on the transport are taken not to throw. A delivery is a message as
  \<^verbatim>\<open>amqplib\<close> hands it to a consumer, with its content and its delivery tag.
\<close>

record delivery =
  content :: string
  deliveryTag :: nat

datatype event =
    Connect jsval
  | CreateConfirmChannel
  | AssertExchange nat jsval string jsval
  | SetupForPublish "nat option"
  | SetupForConsume "nat option"
  | Publish nat jsval jsval string jsval
  | Consume nat jsval jsval
  | Ack nat delivery
  | Nack nat delivery bool jsval
  | HandleMessage jsval

type_synonym 'a effect = "event list \<times> (jsval + 'a)"

text \<open>
  The closure of \<^verbatim>\<open>module.exports\<close>: the configuration and the variable \<^verbatim>\<open>channel\<close>,
  undefined (\<open>None\<close>) until \<^verbatim>\<open>connect\<close> has stored the channel.
\<close>

record gateway =
  config :: jsval
  channel :: "nat option"

definition module_exports :: "jsval \<Rightarrow> gateway effect" where
  "module_exports cfg =
     (if \<not> truthy cfg then ([], Inl (JError Error ''amqp-wrapper: Invalid config''))
      else
     (case get_prop cfg ''url'' of
        Inl e \<Rightarrow> ([], Inl e)
      | Inr url \<Rightarrow>
     (if \<not> truthy url then ([], Inl (JError Error ''amqp-wrapper: Invalid config''))
      else
     (case get_prop cfg ''exchange'' of
        Inl e \<Rightarrow> ([], Inl e)
      | Inr exchange \<Rightarrow>
     (if \<not> truthy exchange then ([], Inl (JError Error ''amqp-wrapper: Invalid config''))
      else
     (case get_prop cfg ''prefetch'' of
        Inl e \<Rightarrow> ([], Inl e)
      | Inr prefetch \<Rightarrow>
          ([], Inr \<lparr>config = set_prop cfg ''prefetch''
                               (if truthy prefetch then prefetch else JNum 10),
                    channel = None\<rparr>)))))))"

subsection \<open>connect\<close>

text \<open>
  The transport answers each call through a callback whose first argument is the error, null
  on success. The answers are given beforehand: the error of each step, and the channel that
  \<^verbatim>\<open>createConfirmChannel\<close> hands over. The two tasks of \<^verbatim>\<open>./queue-setup\<close>, whose code is
  not under \<^verbatim>\<open>src/\<close>, are steps of the same kind: each is started with the value of
  the variable \<^verbatim>\<open>channel\<close> and answers with its error.
\<close>

record replies =
  conn_err :: jsval
  chan_err :: jsval
  chan :: nat
  exch_err :: jsval
  publish_err :: jsval
  consume_err :: jsval

text \<open>What \<^verbatim>\<open>cb\<close>, the callback given to \<^verbatim>\<open>connect\<close>, is called with.\<close>

datatype cb_args = CbError jsval | CbSuccess

text \<open>
  \<^verbatim>\<open>async.series(tasks, cb)\<close>, of the library \<^verbatim>\<open>async\<close>: the tasks are started one after
  the other, each when the one before it has answered without error; the first error goes
  to \<^verbatim>\<open>cb\<close> and the tasks after it are not started. A task is given as the event of its
  start and the error it answers with.
\<close>

fun async_series :: "(event \<times> jsval) list \<Rightarrow> event list \<times> cb_args" where
  "async_series [] = ([], CbSuccess)"
| "async_series ((ev, err) # tasks) =
     (if truthy err then ([ev], CbError err)
      else case async_series tasks of (evs, args) \<Rightarrow> (ev # evs, args))"

text \<open>The list \<^verbatim>\<open>tasks\<close> that \<^verbatim>\<open>assertQueues\<close> builds from \<^verbatim>\<open>config.queues\<close>.\<close>

definition queue_tasks :: "jsval \<Rightarrow> nat option \<Rightarrow> replies \<Rightarrow> jsval + (event \<times> jsval) list" where
  "queue_tasks cfg ch r =
     (case get_prop cfg ''queues'' of
        Inl e \<Rightarrow> Inl e
      | Inr queues \<Rightarrow>
     (case get_prop queues ''publish'' of
        Inl e \<Rightarrow> Inl e
      | Inr publish \<Rightarrow>
     (case get_prop queues ''consume'' of
        Inl e \<Rightarrow> Inl e
      | Inr consume \<Rightarrow>
     (case (if truthy consume then get_prop consume ''name'' else Inr consume) of
        Inl e \<Rightarrow> Inl e
      | Inr name \<Rightarrow>
          Inr ((if truthy publish \<and> is_Array publish then [(SetupForPublish ch, publish_err r)] else [])
             @ (if truthy name then [(SetupForConsume ch, consume_err r)] else []))))))"

definition assertQueues :: "gateway \<Rightarrow> replies \<Rightarrow> jsval \<Rightarrow> cb_args effect" where
  "assertQueues gw r err =
     (if truthy err then ([], Inr (CbError err))
      else
     (case queue_tasks (config gw) (channel gw) r of
        Inl e \<Rightarrow> ([], Inl e)
      | Inr tasks \<Rightarrow> (case async_series tasks of (evs, args) \<Rightarrow> (evs, Inr args))))"

definition assertExchange :: "gateway \<Rightarrow> replies \<Rightarrow> jsval \<Rightarrow> nat \<Rightarrow> cb_args effect \<times> gateway" where
  "assertExchange gw r err ch =
     (if truthy err then (([], Inr (CbError err)), gw)
      else let gw' = gw\<lparr>channel := Some ch\<rparr> in
       (case get_prop (config gw') ''exchange'' of
          Inl e \<Rightarrow> (([], Inl e), gw')
        | Inr exchange \<Rightarrow>
           (case assertQueues gw' r (exch_err r) of
              (evs, res) \<Rightarrow> ((AssertExchange ch exchange ''topic'' (JObj []) # evs, res), gw'))))"

definition createChannel :: "gateway \<Rightarrow> replies \<Rightarrow> jsval \<Rightarrow> cb_args effect \<times> gateway" where
  "createChannel gw r err =
     (if truthy err then (([], Inr (CbError err)), gw)
      else case assertExchange gw r (chan_err r) (chan r) of
             ((evs, res), gw') \<Rightarrow> ((CreateConfirmChannel # evs, res), gw'))"

definition connect :: "gateway \<Rightarrow> replies \<Rightarrow> cb_args effect \<times> gateway" where
  "connect gw r =
     (case get_prop (config gw) ''url'' of
        Inl e \<Rightarrow> (([], Inl e), gw)
      | Inr url \<Rightarrow>
         (case createChannel gw r (conn_err r) of
            ((evs, res), gw') \<Rightarrow> ((Connect url # evs, res), gw')))"

subsection \<open>publishToQueue and publish\<close>

text \<open>
  \<^verbatim>\<open>_.find(collection, {'name': name})\<close>, of the library \<^verbatim>\<open>lodash\<close>: the first element of
  the collection (the elements of an array, the property values of an object) whose property
  \<^verbatim>\<open>name\<close> is the given string, and undefined when there is none or the collection is
  not one.
\<close>

definition has_name :: "string \<Rightarrow> jsval \<Rightarrow> bool" where
  "has_name name e = (get_prop e ''name'' = Inr (JStr name))"

fun lodash_find :: "jsval \<Rightarrow> string \<Rightarrow> jsval" where
  "lodash_find (JArr xs) name = (case find (has_name name) xs of None \<Rightarrow> JUndefined | Some e \<Rightarrow> e)"
| "lodash_find (JObj kvs) name =
     (case find (has_name name) (map snd kvs) of None \<Rightarrow> JUndefined | Some e \<Rightarrow> e)"
| "lodash_find v name = JUndefined"

text \<open>The lookup \<^verbatim>\<open>_.find(config.queues.publish, {'name': name})\<close> of \<^verbatim>\<open>publishToQueue\<close>.\<close>

definition find_target :: "jsval \<Rightarrow> string \<Rightarrow> jsval + jsval" where
  "find_target cfg name =
     (case get_prop cfg ''queues'' of
        Inl e \<Rightarrow> Inl e
      | Inr queues \<Rightarrow>
     (case get_prop queues ''publish'' of
        Inl e \<Rightarrow> Inl e
      | Inr publish \<Rightarrow> Inr (lodash_find publish name)))"

text \<open>
  The confirm callback given to \<^verbatim>\<open>channel.publish\<close> is the transport's to call. The
  callee \<^verbatim>\<open>channel.publish\<close> is evaluated before the arguments, from left to right.
\<close>

definition publishToQueue :: "gateway \<Rightarrow> store \<Rightarrow> string \<Rightarrow> jsval \<Rightarrow> unit effect" where
  "publishToQueue gw h name message =
     (let message = (if typeof message = ''object'' then stringifysafe h message else message) in
      case find_target (config gw) name of
        Inl e \<Rightarrow> ([], Inl e)
      | Inr publishQueue \<Rightarrow>
     (case channel gw of
        None \<Rightarrow> ([], Inl (JError TypeError ''publish''))
      | Some ch \<Rightarrow>
     (case get_prop (config gw) ''exchange'' of
        Inl e \<Rightarrow> ([], Inl e)
      | Inr exchange \<Rightarrow>
     (case get_prop publishQueue ''routingKey'' of
        Inl e \<Rightarrow> ([], Inl e)
      | Inr routingKey \<Rightarrow>
     (case Buffer message of
        Inl e \<Rightarrow> ([], Inl e)
      | Inr bytes \<Rightarrow> ([Publish ch exchange routingKey bytes (JObj [])], Inr ()))))))"

definition publish :: "gateway \<Rightarrow> store \<Rightarrow> jsval \<Rightarrow> jsval \<Rightarrow> jsval \<Rightarrow> unit effect" where
  "publish gw h routingKey message options =
     (let message = (if typeof message = ''object'' then stringifysafe h message else message) in
      case channel gw of
        None \<Rightarrow> ([], Inl (JError TypeError ''publish''))
      | Some ch \<Rightarrow>
     (case get_prop (config gw) ''exchange'' of
        Inl e \<Rightarrow> ([], Inl e)
      | Inr exchange \<Rightarrow>
     (case Buffer message of
        Inl e \<Rightarrow> ([], Inl e)
      | Inr bytes \<Rightarrow> ([Publish ch exchange routingKey bytes options], Inr ()))))"

subsection \<open>consume\<close>

text \<open>
  The user's handler \<^verbatim>\<open>handleMessage(parsedMessage, done)\<close> is given by what it does with
  a payload: the calls of \<^verbatim>\<open>done(err, requeue)\<close> it makes before it returns or throws, how it
  ends, and the calls of \<^verbatim>\<open>done\<close> it makes later, from another turn of the event loop. An
  argument left out is undefined.
\<close>

datatype finish = Returns | Throws jsval

record run =
  resolved :: "(jsval \<times> jsval) list"
  finish :: finish
  later :: "(jsval \<times> jsval) list"

type_synonym handler = "jsval \<Rightarrow> run"

definition done' :: "nat \<Rightarrow> delivery \<Rightarrow> jsval \<Rightarrow> jsval \<Rightarrow> event list" where
  "done' ch message err requeue =
     (let requeue = (if requeue = JUndefined then JBool False else requeue) in
      if truthy err then [Nack ch message False requeue] else [Ack ch message])"

text \<open>
  The function \<^verbatim>\<open>callback(message)\<close> that \<^verbatim>\<open>consume\<close> registers. \<^verbatim>\<open>JSON.parse\<close> is
  the parameter \<open>parse\<close>, \<open>None\<close> where it throws its SyntaxError. The events of one
  delivery are listed together, the later calls of \<^verbatim>\<open>done\<close> last.
\<close>

definition callback :: "nat \<Rightarrow> (string \<Rightarrow> jsval option) \<Rightarrow> handler \<Rightarrow> delivery \<Rightarrow> event list" where
  "callback ch parse handleMessage message =
     (let messagePayload = content message in
      case parse messagePayload of
        None \<Rightarrow> done' ch message (JError SyntaxError messagePayload) (JBool False)
      | Some parsedPayload \<Rightarrow>
          HandleMessage parsedPayload
          # concat (map (\<lambda>(err, requeue). done' ch message err requeue)
                        (resolved (handleMessage parsedPayload)))
          @ (case finish (handleMessage parsedPayload) of
               Returns \<Rightarrow> []
             | Throws error \<Rightarrow> done' ch message error (JBool False))
          @ concat (map (\<lambda>(err, requeue). done' ch message err requeue)
                        (later (handleMessage parsedPayload))))"

text \<open>
  \<^verbatim>\<open>consume(handleMessage)\<close> registers the callback on the configured queue; the transport
  then calls it once for each of the deliveries it has for the queue.
\<close>

definition consume ::
  "gateway \<Rightarrow> (string \<Rightarrow> jsval option) \<Rightarrow> handler \<Rightarrow> delivery list \<Rightarrow> unit effect" where
  "consume gw parse handleMessage deliveries =
     (case channel gw of
        None \<Rightarrow> ([], Inl (JError TypeError ''consume''))
      | Some ch \<Rightarrow>
     (case get_prop (config gw) ''queues'' of
        Inl e \<Rightarrow> ([], Inl e)
      | Inr queues \<Rightarrow>
     (case get_prop queues ''consume'' of
        Inl e \<Rightarrow> ([], Inl e)
      | Inr c \<Rightarrow>
     (case get_prop c ''name'' of
        Inl e \<Rightarrow> ([], Inl e)
      | Inr name \<Rightarrow>
          (Consume ch name (JObj [(''noAck'', JBool False)])
           # concat (map (callback ch parse handleMessage) deliveries), Inr ())))))"

text \<open>The number of acks and nacks that a list of events holds for a delivery.\<close>

fun resolves :: "delivery \<Rightarrow> event \<Rightarrow> bool" where
  "resolves d (Ack ch m) = (m = d)"
| "resolves d (Nack ch m multiple requeue) = (m = d)"
| "resolves d ev = False"

definition resolutions :: "delivery \<Rightarrow> event list \<Rightarrow> nat" where
  "resolutions d evs = length (filter (resolves d) evs)"

section \<open>The connection sequence, as the specification words it\<close>

text \<open>
  The specification describes \<^verbatim>\<open>connect\<close> as a sequence of steps, each gated on the
  success of the one before: open the connection, create the confirm channel, declare the
  topic exchange, then the topology tasks. A step is given as its event and the error it
  answers with, and it succeeds when that error does not count as true.
\<close>

definition connect_steps :: "jsval \<Rightarrow> jsval \<Rightarrow> replies \<Rightarrow> (event \<times> jsval) list \<Rightarrow> (event \<times> jsval) list" where
  "connect_steps url exchange r tasks =
     [(Connect url, conn_err r),
      (CreateConfirmChannel, chan_err r),
      (AssertExchange (chan r) exchange ''topic'' (JObj []), exch_err r)] @ tasks"

definition succeeds :: "event \<times> jsval \<Rightarrow> bool" where
  "succeeds step = (\<not> truthy (snd step))"

text \<open>
  The steps performed are those up to and including the first that fails; what is reported
  to the callback is the error of that step, or success when there is none.
\<close>

definition performed :: "(event \<times> jsval) list \<Rightarrow> event list" where
  "performed steps = map fst (takeWhile succeeds steps @ take 1 (dropWhile succeeds steps))"

definition reported :: "(event \<times> jsval) list \<Rightarrow> cb_args" where
  "reported steps =
     (case find (\<lambda>step. \<not> succeeds step) steps of
        None \<Rightarrow> CbSuccess
      | Some step \<Rightarrow> CbError (snd step))"


section \<open>Examples\<close>

text \<open>
  A configuration with one publish target and a consume target, the gateway it gives once
  connected, a transport on which every step succeeds, a parser that knows two documents,
  two deliveries and a few handlers.
\<close>

definition example_config :: jsval where
  "example_config =
     JObj [(''url'', JStr ''amqp://localhost''),
           (''exchange'', JStr ''ex''),
           (''queues'', JObj [(''publish'', JArr [JObj [(''name'', JStr ''orders''),
                                                         (''routingKey'', JStr ''orders.created'')]]),
                              (''consume'', JObj [(''name'', JStr ''q1'')])])]"

definition fresh_gateway :: gateway where
  "fresh_gateway = \<lparr>config = set_prop example_config ''prefetch'' (JNum 10), channel = None\<rparr>"

definition example_gateway :: gateway where
  "example_gateway = fresh_gateway\<lparr>channel := Some 1\<rparr>"

definition example_replies :: replies where
  "example_replies = \<lparr>conn_err = JNull, chan_err = JNull, chan = 1, exch_err = JNull,
                       publish_err = JNull, consume_err = JNull\<rparr>"

definition example_parse :: "string \<Rightarrow> jsval option" where
  "example_parse s = (if s = ''{}'' then Some (JObj []) else if s = ''1'' then Some (JNum 1) else None)"

definition example_delivery :: delivery where
  "example_delivery = \<lparr>content = ''{}'', deliveryTag = 7\<rparr>"

definition bad_delivery :: delivery where
  "bad_delivery = \<lparr>content = ''not-json'', deliveryTag = 8\<rparr>"

definition bare_config :: jsval where
  "bare_config = JObj [(''url'', JStr ''amqp://localhost''), (''exchange'', JStr ''ex'')]"

definition self_store :: store where
  "self_store = [(0, JObj [(''a'', JNum 1), (''self'', JRef 0)])]"

definition resolving :: "jsval \<Rightarrow> jsval \<Rightarrow> handler" where
  "resolving err requeue = (\<lambda>payload. \<lparr>resolved = [(err, requeue)], finish = Returns, later = []\<rparr>)"

definition throwing :: "jsval \<Rightarrow> handler" where
  "throwing error = (\<lambda>payload. \<lparr>resolved = [], finish = Throws error, later = []\<rparr>)"

definition resolving_then_throwing :: handler where
  "resolving_then_throwing =
     (\<lambda>payload. \<lparr>resolved = [(JNull, JUndefined)], finish = Throws (JError Error ''late''), later = []\<rparr>)"

definition resolving_twice :: handler where
  "resolving_twice =
     (\<lambda>payload. \<lparr>resolved = [(JNull, JUndefined)], finish = Returns, later = [(JNull, JUndefined)]\<rparr>)"

definition never_resolving :: handler where
  "never_resolving = (\<lambda>payload. \<lparr>resolved = [], finish = Returns, later = []\<rparr>)"

section \<open>Properties\<close>

subsection \<open>Reading and writing properties\<close>

lemma get_prop_Inl: "get_prop v k = Inl e \<Longrightarrow> e = JError TypeError k"
  by (cases v) (auto)

lemma map_of_set_field: "k' \<noteq> k \<Longrightarrow> map_of (set_field k v kvs) k' = map_of kvs k'"
  by (induction kvs) auto

lemma get_prop_set_prop: "k' \<noteq> k \<Longrightarrow> get_prop (set_prop cfg k v) k' = get_prop cfg k'"
  by (cases cfg) (simp_all add: map_of_set_field)

lemma get_prop_truthy: "get_prop v k = Inr w \<Longrightarrow> truthy w \<Longrightarrow> truthy v"
  by (cases v) auto

subsection \<open>Construction\<close>

text \<open>
  Claim C7. A configuration that is missing altogether (undefined), or has no \<^verbatim>\<open>url\<close>
  field, or no \<^verbatim>\<open>exchange\<close> field, makes the construction throw the error
  \<^verbatim>\<open>amqp-wrapper: Invalid config\<close> at once; no call on the transport has been made.
\<close>

theorem construction_rejects_missing_fields:
  assumes "cfg = JUndefined \<or> get_prop cfg ''url'' = Inr JUndefined
             \<or> get_prop cfg ''exchange'' = Inr JUndefined"
  shows "module_exports cfg = ([], Inl (JError Error ''amqp-wrapper: Invalid config''))"
  using assms by (cases cfg) (auto simp: module_exports_def split: sum.splits)

theorem construction_rejects_missing_fields_witness:
  "module_exports (JObj [(''url'', JStr ''amqp://localhost'')])
     = ([], Inl (JError Error ''amqp-wrapper: Invalid config''))"
  using construction_rejects_missing_fields [of "JObj [(''url'', JStr ''amqp://localhost'')]"]
  by simp

subsection \<open>The connection sequence\<close>

lemma async_series_gated:
  "async_series tasks = (performed tasks, reported tasks)"
  by (induction tasks rule: async_series.induct)
     (simp_all add: performed_def reported_def succeeds_def)

lemma reported_success: "reported steps = CbSuccess \<longleftrightarrow> (\<forall>step \<in> set steps. succeeds step)"
  by (induction steps) (auto simp: reported_def)

lemma performed_all: "\<forall>step \<in> set steps. succeeds step \<Longrightarrow> performed steps = map fst steps"
  by (induction steps) (auto simp: performed_def)

lemma connect_unfolded:
  assumes "get_prop (config gw) ''url'' = Inr url"
    and "get_prop (config gw) ''exchange'' = Inr exchange"
    and "queue_tasks (config gw) (Some (chan r)) r = Inr tasks"
  shows "connect gw r =
     ((performed (connect_steps url exchange r tasks),
       Inr (reported (connect_steps url exchange r tasks))),
      if truthy (conn_err r) \<or> truthy (chan_err r) then gw else gw\<lparr>channel := Some (chan r)\<rparr>)"
  using assms
  by (simp add: connect_def createChannel_def assertExchange_def assertQueues_def Let_def
        async_series_gated connect_steps_def performed_def reported_def succeeds_def)

lemma performed_split:
  assumes "steps = pre @ (ev, err) # post" and "\<forall>step \<in> set pre. \<not> truthy (snd step)" and "truthy err"
  shows "performed steps = map fst pre @ [ev]" and "reported steps = CbError err"
  using assms(2) unfolding assms(1)
  by (induction pre) (auto simp: performed_def reported_def succeeds_def assms(3))

text \<open>
  Claim C3. For a configuration whose \<^verbatim>\<open>url\<close>, \<^verbatim>\<open>exchange\<close> and \<^verbatim>\<open>queues\<close>
  can be read, \<^verbatim>\<open>connect\<close> performs the steps in the order open connection, create
  confirm channel, declare topic exchange, topology tasks. When every step succeeds all of
  them have been performed, the topology tasks included, and the callback receives success.
  When a step fails after the steps before it have succeeded, the steps after it are not
  performed and the callback receives the error of that step. The callback receives success
  exactly when every step succeeds.
\<close>

theorem connect_gated:
  assumes "get_prop (config gw) ''url'' = Inr url"
    and "get_prop (config gw) ''exchange'' = Inr exchange"
    and "queue_tasks (config gw) (Some (chan r)) r = Inr tasks"
    and "steps = connect_steps url exchange r tasks"
  shows "((\<forall>step \<in> set steps. \<not> truthy (snd step)) \<longrightarrow>
            fst (connect gw r) = (map fst steps, Inr CbSuccess))
       \<and> (\<forall>pre ev err post.
            steps = pre @ (ev, err) # post \<and> (\<forall>step \<in> set pre. \<not> truthy (snd step)) \<and> truthy err \<longrightarrow>
            fst (connect gw r) = (map fst pre @ [ev], Inr (CbError err)))
       \<and> (snd (fst (connect gw r)) = Inr CbSuccess \<longleftrightarrow> (\<forall>step \<in> set steps. \<not> truthy (snd step)))"
proof -
  have run: "fst (connect gw r) = (performed steps, Inr (reported steps))"
    using connect_unfolded [OF assms(1-3)] assms(4) by simp
  have "fst (connect gw r) = (map fst steps, Inr CbSuccess)"
    if "\<forall>step \<in> set steps. \<not> truthy (snd step)"
    using that run reported_success [of steps] performed_all [of steps]
    by (simp add: succeeds_def)
  moreover have "fst (connect gw r) = (map fst pre @ [ev], Inr (CbError err))"
    if "steps = pre @ (ev, err) # post" and "\<forall>step \<in> set pre. \<not> truthy (snd step)" and "truthy err"
    for pre ev err post
    using performed_split [OF that] run by simp
  moreover have "snd (fst (connect gw r)) = Inr CbSuccess \<longleftrightarrow> (\<forall>step \<in> set steps. \<not> truthy (snd step))"
    using run reported_success [of steps] by (simp add: succeeds_def)
  ultimately show ?thesis
    by blast
qed

theorem connect_gated_witness:
  "fst (connect fresh_gateway example_replies)
     = ([Connect (JStr ''amqp://localhost''), CreateConfirmChannel,
         AssertExchange 1 (JStr ''ex'') ''topic'' (JObj []), SetupForPublish (Some 1),
         SetupForConsume (Some 1)], Inr CbSuccess)
   \<and> fst (connect fresh_gateway (example_replies\<lparr>chan_err := JError Error ''closed''\<rparr>))
     = ([Connect (JStr ''amqp://localhost''), CreateConfirmChannel],
        Inr (CbError (JError Error ''closed'')))"
  using connect_gated [of fresh_gateway "JStr ''amqp://localhost''" "JStr ''ex''" example_replies
          "[(SetupForPublish (Some 1), JNull), (SetupForConsume (Some 1), JNull)]"
          "connect_steps (JStr ''amqp://localhost'') (JStr ''ex'') example_replies
             [(SetupForPublish (Some 1), JNull), (SetupForConsume (Some 1), JNull)]"]
        connect_gated [of fresh_gateway "JStr ''amqp://localhost''" "JStr ''ex''"
          "example_replies\<lparr>chan_err := JError Error ''closed''\<rparr>"
          "[(SetupForPublish (Some 1), JNull), (SetupForConsume (Some 1), JNull)]"
          "connect_steps (JStr ''amqp://localhost'') (JStr ''ex'')
             (example_replies\<lparr>chan_err := JError Error ''closed''\<rparr>)
             [(SetupForPublish (Some 1), JNull), (SetupForConsume (Some 1), JNull)]"]
  by (simp add: fresh_gateway_def example_config_def example_replies_def queue_tasks_def
        connect_steps_def connect_def createChannel_def assertExchange_def assertQueues_def)

lemma queue_tasks_both:
  assumes "get_prop cfg ''queues'' = Inr queues"
    and "get_prop queues ''publish'' = Inr (JArr targets)"
    and "get_prop queues ''consume'' = Inr c"
    and "get_prop c ''name'' = Inr name"
    and "truthy name"
  shows "queue_tasks cfg ch r = Inr [(SetupForPublish ch, publish_err r), (SetupForConsume ch, consume_err r)]"
  using assms get_prop_truthy [OF assms(4,5)] by (simp add: queue_tasks_def)

text \<open>
  Claim C9, as amended. With a publish list and a consume target configured, neither topology
  task is started unless the connection, the channel and the exchange declaration have
  succeeded; then the publish-side task is started, and the consume-side task is started only
  after the publish-side task has answered without error: \<^verbatim>\<open>async.series\<close> runs the two
  one after the other, not concurrently.
\<close>

theorem topology_tasks_in_series:
  assumes "get_prop (config gw) ''url'' = Inr url"
    and "get_prop (config gw) ''exchange'' = Inr exchange"
    and "get_prop (config gw) ''queues'' = Inr queues"
    and "get_prop queues ''publish'' = Inr (JArr targets)"
    and "get_prop queues ''consume'' = Inr c"
    and "get_prop c ''name'' = Inr name"
    and "truthy name"
  shows "(truthy (conn_err r) \<or> truthy (chan_err r) \<or> truthy (exch_err r) \<longrightarrow>
            (\<forall>ch. SetupForPublish ch \<notin> set (fst (fst (connect gw r)))
                \<and> SetupForConsume ch \<notin> set (fst (fst (connect gw r)))))
       \<and> (\<not> truthy (conn_err r) \<and> \<not> truthy (chan_err r) \<and> \<not> truthy (exch_err r) \<longrightarrow>
            fst (fst (connect gw r)) =
              [Connect url, CreateConfirmChannel, AssertExchange (chan r) exchange ''topic'' (JObj []),
               SetupForPublish (Some (chan r))]
              @ (if truthy (publish_err r) then [] else [SetupForConsume (Some (chan r))]))"
  using connect_unfolded [OF assms(1,2) queue_tasks_both [OF assms(3-7)], of r]
  by (auto simp: connect_steps_def performed_def succeeds_def)

theorem topology_tasks_in_series_witness:
  "fst (fst (connect fresh_gateway example_replies))
     = [Connect (JStr ''amqp://localhost''), CreateConfirmChannel,
        AssertExchange 1 (JStr ''ex'') ''topic'' (JObj []), SetupForPublish (Some 1), SetupForConsume (Some 1)]
   \<and> SetupForPublish (Some 1)
        \<notin> set (fst (fst (connect fresh_gateway (example_replies\<lparr>exch_err := JError Error ''denied''\<rparr>))))"
  using topology_tasks_in_series [of fresh_gateway "JStr ''amqp://localhost''" "JStr ''ex''"
          "JObj [(''publish'', JArr [JObj [(''name'', JStr ''orders''),
                                           (''routingKey'', JStr ''orders.created'')]]),
                 (''consume'', JObj [(''name'', JStr ''q1'')])]"
          "[JObj [(''name'', JStr ''orders''), (''routingKey'', JStr ''orders.created'')]]"
          "JObj [(''name'', JStr ''q1'')]" "JStr ''q1''" example_replies]
        topology_tasks_in_series [of fresh_gateway "JStr ''amqp://localhost''" "JStr ''ex''"
          "JObj [(''publish'', JArr [JObj [(''name'', JStr ''orders''),
                                           (''routingKey'', JStr ''orders.created'')]]),
                 (''consume'', JObj [(''name'', JStr ''q1'')])]"
          "[JObj [(''name'', JStr ''orders''), (''routingKey'', JStr ''orders.created'')]]"
          "JObj [(''name'', JStr ''q1'')]" "JStr ''q1''"
          "example_replies\<lparr>exch_err := JError Error ''denied''\<rparr>"]
  by (simp add: fresh_gateway_def example_config_def example_replies_def)

text \<open>
  Claim C9 as stated fails: the two tasks do not run concurrently. When the exchange has
  been declared and the publish-side task answers with an error, the consume-side task has
  not been started, and it never is.
\<close>

theorem consume_setup_waits_for_publish_setup:
  "fst (fst (connect fresh_gateway (example_replies\<lparr>publish_err := JError Error ''refused''\<rparr>)))
     = [Connect (JStr ''amqp://localhost''), CreateConfirmChannel,
        AssertExchange 1 (JStr ''ex'') ''topic'' (JObj []), SetupForPublish (Some 1)]"
  by (simp add: fresh_gateway_def example_config_def example_replies_def queue_tasks_def
        connect_def createChannel_def assertExchange_def assertQueues_def)

text \<open>
  Claim C10. A configuration with a \<^verbatim>\<open>url\<close> and an \<^verbatim>\<open>exchange\<close> and no \<^verbatim>\<open>queues\<close>
  field is accepted by the constructor; when the connection, the channel and the exchange
  declaration succeed, \<^verbatim>\<open>connect\<close> then ends in \<^verbatim>\<open>assertQueues\<close> with a TypeError
  thrown by the read \<^verbatim>\<open>config.queues.publish\<close>, which nothing in the module catches, and
  the callback is not called.
\<close>

theorem missing_queues_uncaught:
  assumes "get_prop cfg ''url'' = Inr url" and "truthy url"
    and "get_prop cfg ''exchange'' = Inr exchange" and "truthy exchange"
    and "get_prop cfg ''queues'' = Inr JUndefined"
  shows "\<exists>gw. module_exports cfg = ([], Inr gw)
          \<and> (\<forall>r. \<not> truthy (conn_err r) \<and> \<not> truthy (chan_err r) \<and> \<not> truthy (exch_err r) \<longrightarrow>
                fst (connect gw r) =
                  ([Connect url, CreateConfirmChannel, AssertExchange (chan r) exchange ''topic'' (JObj [])],
                   Inl (JError TypeError ''publish'')))"
proof -
  obtain prefetch where p: "get_prop cfg ''prefetch'' = Inr prefetch"
    using assms(1) by (cases cfg) auto
  define gw where "gw = \<lparr>config = set_prop cfg ''prefetch'' (if truthy prefetch then prefetch else JNum 10),
                          channel = None\<rparr>"
  have "truthy cfg"
    using assms(1,2) by (rule get_prop_truthy)
  then have "module_exports cfg = ([], Inr gw)"
    using assms p by (simp add: module_exports_def gw_def)
  moreover have "fst (connect gw r) =
      ([Connect url, CreateConfirmChannel, AssertExchange (chan r) exchange ''topic'' (JObj [])],
       Inl (JError TypeError ''publish''))"
    if "\<not> truthy (conn_err r) \<and> \<not> truthy (chan_err r) \<and> \<not> truthy (exch_err r)" for r
    using that assms
    by (simp add: connect_def createChannel_def assertExchange_def assertQueues_def
          queue_tasks_def gw_def get_prop_set_prop)
  ultimately show ?thesis
    by blast
qed

theorem missing_queues_uncaught_witness:
  "module_exports bare_config = ([], Inr (fresh_gateway\<lparr>config := set_prop bare_config ''prefetch'' (JNum 10)\<rparr>))
   \<and> fst (connect (fresh_gateway\<lparr>config := set_prop bare_config ''prefetch'' (JNum 10)\<rparr>) example_replies)
      = ([Connect (JStr ''amqp://localhost''), CreateConfirmChannel,
          AssertExchange 1 (JStr ''ex'') ''topic'' (JObj [])], Inl (JError TypeError ''publish''))"
  using missing_queues_uncaught [of bare_config "JStr ''amqp://localhost''" "JStr ''ex''"]
  by (auto simp: bare_config_def fresh_gateway_def example_replies_def module_exports_def)

subsection \<open>Publishing\<close>

text \<open>
  Claim C1, as amended. When no configured publish target has the name given to
  \<^verbatim>\<open>publishToQueue\<close> (the lookup finds nothing, or \<^verbatim>\<open>config.queues\<close> cannot be read),
  the call throws a TypeError and nothing is handed to the transport: the read
  \<^verbatim>\<open>publishQueue.routingKey\<close> of the undefined lookup result throws while the arguments
  of \<^verbatim>\<open>channel.publish\<close> are evaluated.
\<close>

theorem unknown_target_throws:
  assumes "find_target (config gw) name = Inr JUndefined \<or> (\<exists>e. find_target (config gw) name = Inl e)"
  shows "\<exists>m. publishToQueue gw h name message = ([], Inl (JError TypeError m))"
  using assms
  by (auto simp: publishToQueue_def find_target_def Let_def split: sum.splits option.splits
           dest: get_prop_Inl)

theorem unknown_target_throws_witness:
  "\<exists>m. publishToQueue example_gateway [] ''invoices'' (JStr ''hello'') = ([], Inl (JError TypeError m))"
  using unknown_target_throws [of example_gateway "''invoices''" "[]" "JStr ''hello''"]
  by (simp add: example_gateway_def fresh_gateway_def example_config_def find_target_def
        has_name_def)

text \<open>
  Claim C1 as stated fails: on the connected example gateway, whose only publish target is
  \<^verbatim>\<open>orders\<close>, publishing to \<^verbatim>\<open>payments\<close> throws and no publish reaches the transport.
\<close>

theorem unknown_target_not_published:
  "publishToQueue example_gateway [] ''payments'' (JStr ''hello'')
     = ([], Inl (JError TypeError ''routingKey''))"
  by (simp add: publishToQueue_def example_gateway_def fresh_gateway_def example_config_def
        find_target_def has_name_def)

lemma ref_free_elide: "ref_free (elide h st v)"
  by (induction h st v rule: elide.induct)
     (auto simp: list_all_iff circular_def split: option.splits)

lemma serialize_elide: "serialize h' st' (elide h st v) = serialize h st v"
proof (induction h st v arbitrary: h' st' rule: elide.induct)
  case (7 h st xs)
  then show ?case by (simp add: comp_def cong: map_cong)
next
  case (8 h st kvs)
  then have "map (\<lambda>(k, x). case serialize h' st' x of None \<Rightarrow> [] | Some s \<Rightarrow> [json_quote k @ '':'' @ s])
               (map (\<lambda>(k, x). (k, elide h st x)) kvs)
           = map (\<lambda>(k, x). case serialize h st x of None \<Rightarrow> [] | Some s \<Rightarrow> [json_quote k @ '':'' @ s]) kvs"
    by (auto simp: comp_def)
  then show ?case by (simp del: map_map)
next
  case (9 h st a)
  then show ?case by (auto split: option.splits)
qed simp_all

lemma serialize_object:
  assumes "typeof message = ''object''" and "object_at h message"
  shows "\<exists>s. serialize h [] message = Some s"
proof (cases message)
  case (JRef a)
  with assms(2) show ?thesis
    by (auto split: option.splits jsval.splits)
qed (use assms(1) in simp_all)

text \<open>
  Claim C8. A message of type \<^verbatim>\<open>object\<close>, also one that contains itself, is serialized
  to a string without an exception: the JSON text of the message with its cycles elided, a
  value without references. Every publish that \<^verbatim>\<open>publish\<close> or
  \<^verbatim>\<open>publishToQueue\<close> hands to the transport carries the bytes of that string, and the call
  does hand it over once the channel is there and, for \<^verbatim>\<open>publishToQueue\<close>, the target
  is found. The example after it is the message \<^verbatim>\<open>o = {a: 1}; o.self = o\<close>, whose
  cycle is replaced by a string.
\<close>

theorem structured_message_published:
  assumes "typeof message = ''object''" and "object_at h message"
  shows "\<exists>s. stringifysafe h message = JStr s
     \<and> ref_free (elide h [] message) \<and> serialize [] [] (elide h [] message) = Some s
     \<and> (\<forall>ev \<in> set (fst (publish gw h routingKey message options)).
           \<exists>ch exchange. ev = Publish ch exchange routingKey s options)
     \<and> (\<forall>ev \<in> set (fst (publishToQueue gw h name message)).
           \<exists>ch exchange key. ev = Publish ch exchange key s (JObj []))
     \<and> (\<forall>ch exchange. channel gw = Some ch \<and> get_prop (config gw) ''exchange'' = Inr exchange \<longrightarrow>
           publish gw h routingKey message options
             = ([Publish ch exchange routingKey s options], Inr ()))
     \<and> (\<forall>ch exchange target key.
           channel gw = Some ch \<and> get_prop (config gw) ''exchange'' = Inr exchange
           \<and> find_target (config gw) name = Inr target \<and> get_prop target ''routingKey'' = Inr key \<longrightarrow>
           publishToQueue gw h name message = ([Publish ch exchange key s (JObj [])], Inr ()))"
proof -
  obtain s where s: "serialize h [] message = Some s"
    using serialize_object [OF assms] by blast
  then have str: "stringifysafe h message = JStr s"
    by (simp add: stringifysafe_def)
  have "\<forall>ev \<in> set (fst (publish gw h routingKey message options)).
           \<exists>ch exchange. ev = Publish ch exchange routingKey s options"
    using assms(1) str by (auto simp: publish_def split: option.splits sum.splits)
  moreover have "\<forall>ev \<in> set (fst (publishToQueue gw h name message)).
           \<exists>ch exchange key. ev = Publish ch exchange key s (JObj [])"
    using assms(1) str by (auto simp: publishToQueue_def split: option.splits sum.splits)
  moreover have "publish gw h routingKey message options
             = ([Publish ch exchange routingKey s options], Inr ())"
    if "channel gw = Some ch \<and> get_prop (config gw) ''exchange'' = Inr exchange" for ch exchange
    using that assms(1) str by (simp add: publish_def)
  moreover have "publishToQueue gw h name message = ([Publish ch exchange key s (JObj [])], Inr ())"
    if "channel gw = Some ch \<and> get_prop (config gw) ''exchange'' = Inr exchange
           \<and> find_target (config gw) name = Inr target \<and> get_prop target ''routingKey'' = Inr key"
    for ch exchange target key
    using that assms(1) str by (simp add: publishToQueue_def)
  ultimately show ?thesis
    using str s ref_free_elide [of h "[]" message] serialize_elide [of "[]" "[]" h "[]" message]
    by auto
qed

lemma show_int_1: "show_int 1 = ''1''"
  by code_simp

theorem structured_message_published_witness:
  "elide self_store [] (JRef 0) = JObj [(''a'', JNum 1), (''self'', JStr ''[Circular]'')]
   \<and> stringifysafe self_store (JRef 0)
     = JStr (''{'' @ json_quote ''a'' @ '':1,'' @ json_quote ''self'' @ '':'' @ json_quote ''[Circular]'' @ ''}'')
   \<and> publish example_gateway self_store (JStr ''audit'') (JRef 0) (JObj [])
     = ([Publish 1 (JStr ''ex'') (JStr ''audit'')
           (''{'' @ json_quote ''a'' @ '':1,'' @ json_quote ''self'' @ '':'' @ json_quote ''[Circular]'' @ ''}'')
           (JObj [])], Inr ())
   \<and> publishToQueue example_gateway self_store ''orders'' (JRef 0)
     = ([Publish 1 (JStr ''ex'') (JStr ''orders.created'')
           (''{'' @ json_quote ''a'' @ '':1,'' @ json_quote ''self'' @ '':'' @ json_quote ''[Circular]'' @ ''}'')
           (JObj [])], Inr ())"
  using structured_message_published [of "JRef 0" self_store example_gateway "JStr ''audit''" "JObj []" "''orders''"]
  by (simp add: self_store_def stringifysafe_def circular_def show_int_1 example_gateway_def
        fresh_gateway_def example_config_def find_target_def has_name_def publish_def publishToQueue_def)

subsection \<open>Consuming\<close>

text \<open>
  Claim C5. A delivery whose payload \<^verbatim>\<open>JSON.parse\<close> rejects is nacked once, with
  \<^verbatim>\<open>multiple\<close> and \<^verbatim>\<open>requeue\<close> false, and the handler is not entered.
\<close>

theorem invalid_json_nacked:
  assumes "parse (content d) = None"
  shows "callback ch parse handleMessage d = [Nack ch d False (JBool False)]
         \<and> (\<forall>v. HandleMessage v \<notin> set (callback ch parse handleMessage d))"
  using assms by (simp add: callback_def done'_def)

theorem invalid_json_nacked_witness:
  "callback 1 example_parse (resolving JNull JUndefined) bad_delivery
     = [Nack 1 bad_delivery False (JBool False)]
   \<and> (\<forall>v. HandleMessage v \<notin> set (callback 1 example_parse (resolving JNull JUndefined) bad_delivery))"
  using invalid_json_nacked [of example_parse bad_delivery 1 "resolving JNull JUndefined"]
  by (simp add: example_parse_def bad_delivery_def)

text \<open>
  Claim C4. For a delivery whose payload parses, a handler that returns and calls
  \<^verbatim>\<open>done\<close> once, at once or later: \<^verbatim>\<open>done(null)\<close> acks the delivery and nothing else;
  \<^verbatim>\<open>done(err)\<close> with an error \<^verbatim>\<open>err\<close> (an error object, or any other value that
  counts as true) and no second argument nacks it with requeue false; \<^verbatim>\<open>done(err, true)\<close>
  nacks it with requeue true.
\<close>

theorem resolution_maps_to_ack_or_nack:
  assumes "parse (content d) = Some v"
    and "finish (handleMessage v) = Returns"
    and "resolved (handleMessage v) @ later (handleMessage v) = [(err, requeue)]"
  shows "(err = JNull \<longrightarrow> callback ch parse handleMessage d = [HandleMessage v, Ack ch d])
       \<and> (truthy err \<and> requeue = JUndefined \<longrightarrow>
            callback ch parse handleMessage d = [HandleMessage v, Nack ch d False (JBool False)])
       \<and> (truthy err \<and> requeue = JBool True \<longrightarrow>
            callback ch parse handleMessage d = [HandleMessage v, Nack ch d False (JBool True)])"
proof -
  have "concat (map (\<lambda>(err, requeue). done' ch d err requeue) (resolved (handleMessage v)))
          @ concat (map (\<lambda>(err, requeue). done' ch d err requeue) (later (handleMessage v)))
        = concat (map (\<lambda>(err, requeue). done' ch d err requeue) [(err, requeue)])"
    unfolding assms(3) [symmetric] by simp
  then have "callback ch parse handleMessage d = HandleMessage v # done' ch d err requeue"
    using assms(1,2) by (simp add: callback_def)
  then show ?thesis
    by (simp add: done'_def)
qed

theorem resolution_maps_to_ack_or_nack_witness:
  "callback 1 example_parse (resolving JNull JUndefined) example_delivery
     = [HandleMessage (JObj []), Ack 1 example_delivery]
   \<and> callback 1 example_parse (resolving (JError Error ''failed'') JUndefined) example_delivery
     = [HandleMessage (JObj []), Nack 1 example_delivery False (JBool False)]
   \<and> callback 1 example_parse (resolving (JError Error ''failed'') (JBool True)) example_delivery
     = [HandleMessage (JObj []), Nack 1 example_delivery False (JBool True)]"
  using resolution_maps_to_ack_or_nack [of example_parse example_delivery "JObj []"
          "resolving JNull JUndefined" JNull JUndefined 1]
        resolution_maps_to_ack_or_nack [of example_parse example_delivery "JObj []"
          "resolving (JError Error ''failed'') JUndefined" "JError Error ''failed''" JUndefined 1]
        resolution_maps_to_ack_or_nack [of example_parse example_delivery "JObj []"
          "resolving (JError Error ''failed'') (JBool True)" "JError Error ''failed''" "JBool True" 1]
  by (simp add: example_parse_def example_delivery_def resolving_def)

text \<open>
  Claim C6 fails on the code where the handler throws a value that counts as false
  (\<^verbatim>\<open>throw null\<close>, and likewise undefined, false, 0 or the empty string): the exception is
  caught and handed to \<^verbatim>\<open>done(error, false)\<close>, whose test \<^verbatim>\<open>if (err)\<close> then fails, so
  the delivery is acked instead of nacked.
\<close>

theorem thrown_null_is_acked:
  "callback 1 example_parse (throwing JNull) example_delivery
     = [HandleMessage (JObj []), Ack 1 example_delivery]"
  by (simp add: callback_def done'_def example_parse_def example_delivery_def throwing_def)

text \<open>
  A thrown error object, or any other thrown value that counts as true, is caught and the
  delivery is nacked without requeue.
\<close>

lemma thrown_error_is_nacked:
  assumes "parse (content d) = Some v"
    and "handleMessage v = \<lparr>resolved = [], finish = Throws error, later = []\<rparr>"
    and "truthy error"
  shows "callback ch parse handleMessage d = [HandleMessage v, Nack ch d False (JBool False)]"
  using assms by (simp add: callback_def done'_def)

lemma resolutions_Nil: "resolutions d [] = 0"
  by (simp add: resolutions_def)

lemma resolutions_append: "resolutions d (xs @ ys) = resolutions d xs + resolutions d ys"
  by (simp add: resolutions_def)

lemma resolutions_done: "resolutions d (done' ch d err requeue) = 1"
  by (simp add: resolutions_def done'_def)

lemma resolutions_calls:
  "resolutions d (concat (map (\<lambda>(err, requeue). done' ch d err requeue) calls)) = length calls"
  by (induction calls) (auto simp: resolutions_append resolutions_done resolutions_Nil)

text \<open>
  Claim C2, as amended. Nothing makes the resolution of a delivery unique: the dispatcher
  issues one nack for a payload that does not parse, and otherwise one ack or nack for each
  call of \<^verbatim>\<open>done\<close> that the handler makes, at once or later, and one more when the
  handler throws. So a delivery is resolved exactly once when the payload does not parse,
  when the handler calls \<^verbatim>\<open>done\<close> once and does not throw, or when it throws without
  ever calling \<^verbatim>\<open>done\<close>.
\<close>

theorem resolutions_counted:
  "resolutions d (callback ch parse handleMessage d) =
     (case parse (content d) of
        None \<Rightarrow> 1
      | Some v \<Rightarrow> length (resolved (handleMessage v))
                  + (case finish (handleMessage v) of Returns \<Rightarrow> 0 | Throws error \<Rightarrow> 1)
                  + length (later (handleMessage v)))"
proof (cases "parse (content d)")
  case None
  then show ?thesis
    by (simp add: callback_def resolutions_done)
next
  case (Some v)
  have "resolutions d (HandleMessage v # evs) = resolutions d evs" for evs
    by (simp add: resolutions_def)
  with Some show ?thesis
    by (simp add: callback_def resolutions_append resolutions_calls resolutions_done
             resolutions_Nil split: finish.splits)
qed

theorem resolutions_counted_witness:
  "resolutions example_delivery (callback 1 example_parse (resolving JNull JUndefined) example_delivery) = 1"
  using resolutions_counted [of example_delivery 1 example_parse "resolving JNull JUndefined"]
  by (simp add: example_parse_def example_delivery_def resolving_def)

text \<open>
  Claim C2 as stated fails: a handler that calls \<^verbatim>\<open>done\<close> and then throws, or calls
  \<^verbatim>\<open>done\<close> twice, has its delivery resolved twice, and the delivery of a handler that
  never calls \<^verbatim>\<open>done\<close> is never resolved.
\<close>

theorem resolved_twice_or_never:
  "resolutions example_delivery (callback 1 example_parse resolving_then_throwing example_delivery) = 2
   \<and> resolutions example_delivery (callback 1 example_parse resolving_twice example_delivery) = 2
   \<and> resolutions example_delivery (callback 1 example_parse never_resolving example_delivery) = 0"
  by (simp add: callback_def done'_def resolutions_def example_parse_def example_delivery_def
        resolving_then_throwing_def resolving_twice_def never_resolving_def Let_def)

end
